theory Spec2Isabelle
  imports Complex_Main "HOL-Library.Sublist" "HOL-Library.Multiset"
begin

section \<open>Data model (src/api/types.ts)\<close>

text \<open>
  A JavaScript \<open>number\<close> is a double; it is modelled by the real number that is its
  value (NaN and the infinities are outside the model). Comparisons of doubles are
  comparisons of their values. Where a rounded sum or quotient is compared with a
  threshold and decides the result (the running sum of coverage selection, the slope
  of trend prediction), every arithmetic operation is followed by \<open>round_double\<close>, the
  rounding of IEEE 754 binary64; elsewhere the arithmetic is that of the real numbers.
  A JavaScript string is a \<open>string\<close> (a list of characters).
\<close>

record Deck =
  rank :: real
  name :: string
  count :: real
  share :: real
  score :: string
  winRate :: real
  wins :: real
  losses :: real
  ties :: real

text \<open>A deck literal with the fields the scoring engine does not read set to zero.\<close>

definition mkDeck :: "string \<Rightarrow> real \<Rightarrow> real \<Rightarrow> Deck" where
  "mkDeck n s w =
     \<lparr>rank = 0, name = n, count = 0, share = s, score = [], winRate = w,
      wins = 0, losses = 0, ties = 0\<rparr>"

text \<open>
  \<open>Array.prototype.sort\<close> with the comparator \<open>(a, b) => b.k - a.k\<close> is a stable sort
  by descending key; \<open>sort_key\<close> is a stable insertion sort by ascending key. The
  rounded difference of two doubles has the sign of the exact difference (it is zero
  only when they are equal), so the order is that of the values.
\<close>

definition sort_desc :: "('a \<Rightarrow> real) \<Rightarrow> 'a list \<Rightarrow> 'a list" where
  "sort_desc k xs = sort_key (\<lambda>x. - k x) xs"

section \<open>Double arithmetic\<close>

text \<open>The power of two with an integer exponent.\<close>

definition pow2 :: "int \<Rightarrow> real" where
  "pow2 k = (if 0 \<le> k then 2 ^ nat k else 1 / 2 ^ nat (- k))"

text \<open>Rounding to the nearest integer, a tie to the even one.\<close>

definition round_half_even :: "real \<Rightarrow> int" where
  "round_half_even q =
     (let f = \<lfloor>q\<rfloor>; r = q - of_int f
      in if r < 1 / 2 then f
         else if r > 1 / 2 then f + 1
         else if even f then f else f + 1)"

text \<open>
  The binary64 rounding of a real number, to nearest with ties to even: a double has
  53 significant bits, so in the binade of exponent e (at least -1022, where the
  subnormal numbers begin) the doubles are the multiples of 2^(e - 52). A result of
  magnitude 2^1024 or more stands for an infinity; shares and slopes are far below.
  Every arithmetic operation of JavaScript returns the rounding of the exact result,
  and a decimal literal denotes the rounding of its decimal value.
\<close>

definition round_double :: "real \<Rightarrow> real" where
  "round_double x =
     (if x = 0 then 0
      else
        let e = max \<lfloor>log 2 \<bar>x\<bar>\<rfloor> (- 1022);
            u = pow2 (e - 52)
        in of_int (round_half_even (x / u)) * u)"

section \<open>Coverage selection (src/utils/coverage.ts)\<close>



section \<open>Tier classification (DataStorage.getTier, DeckOptimizer.getTier)\<close>

definition DataStorage_getTier :: "real \<Rightarrow> string" where
  "DataStorage_getTier expectedWinRate =
     (if expectedWinRate \<ge> 57 then ''SS''
      else if expectedWinRate \<ge> 55 then ''S''
      else if expectedWinRate \<ge> 53 then ''A+''
      else if expectedWinRate \<ge> 51 then ''A''
      else if expectedWinRate \<ge> 49 then ''B''
      else ''C'')"

text \<open>
  The labels of \<open>DeckOptimizer.getTier\<close> carry a Japanese description in parentheses
  after the tier; the descriptions are written here as their UTF-8 bytes.
\<close>

definition desc_SS :: string where
  "desc_SS = [CHR 0xE7, CHR 0x92, CHR 0xB0, CHR 0xE5, CHR 0xA2, CHR 0x83,
              CHR 0xE6, CHR 0x94, CHR 0xAF, CHR 0xE9, CHR 0x85, CHR 0x8D]"

definition desc_S :: string where
  "desc_S = [CHR 0xE6, CHR 0x9C, CHR 0x80, CHR 0xE5, CHR 0xBC, CHR 0xB7,
             CHR 0xE5, CHR 0x80, CHR 0x99, CHR 0xE8, CHR 0xA3, CHR 0x9C]"

definition desc_Aplus :: string where
  "desc_Aplus = [CHR 0xE5, CHR 0xAE, CHR 0x9F, CHR 0xE7, CHR 0x94, CHR 0xA8,
                 CHR 0xE6, CHR 0x9C, CHR 0x80, CHR 0xE5, CHR 0xBC, CHR 0xB7]"

definition desc_A :: string where
  "desc_A = [CHR 0xE5, CHR 0xAE, CHR 0x9F, CHR 0xE7, CHR 0x94, CHR 0xA8,
             CHR 0xE5, CHR 0x8F, CHR 0xAF, CHR 0xE8, CHR 0x83, CHR 0xBD]"

definition desc_B :: string where
  "desc_B = [CHR 0xE6, CHR 0x9D, CHR 0xA1, CHR 0xE4, CHR 0xBB, CHR 0xB6,
             CHR 0xE4, CHR 0xBB, CHR 0x98, CHR 0xE3, CHR 0x81, CHR 0x8D,
             CHR 0xE6, CHR 0x8E, CHR 0xA1, CHR 0xE7, CHR 0x94, CHR 0xA8]"

definition desc_C :: string where
  "desc_C = [CHR 0xE9, CHR 0x9D, CHR 0x9E, CHR 0xE6, CHR 0x8E, CHR 0xA8,
             CHR 0xE5, CHR 0xA5, CHR 0xA8]"

definition DeckOptimizer_getTier :: "real \<Rightarrow> string" where
  "DeckOptimizer_getTier expectedWinRate =
     (if expectedWinRate \<ge> 57.0 then ''SS ('' @ desc_SS @ '')''
      else if expectedWinRate \<ge> 55.0 then ''S ('' @ desc_S @ '')''
      else if expectedWinRate \<ge> 53.0 then ''A+ ('' @ desc_Aplus @ '')''
      else if expectedWinRate \<ge> 51.0 then ''A ('' @ desc_A @ '')''
      else if expectedWinRate \<ge> 49.0 then ''B ('' @ desc_B @ '')''
      else ''C ('' @ desc_C @ '')'')"

text \<open>
  The tier of a label: the text before its first space, as \<open>formatTierList\<close> reads it
  (\<open>tier.startsWith(tierLevel + ' ')\<close>).
\<close>

definition tier_of_label :: "string \<Rightarrow> string" where
  "tier_of_label l = takeWhile (\<lambda>c. c \<noteq> CHR '' '') l"

section \<open>The deck optimizer (class DeckOptimizer)\<close>

text \<open>
  A JavaScript \<open>Map\<close> is an association list in insertion order: \<open>get\<close> is \<open>map_of\<close>,
  \<open>entries()\<close> is the list itself and \<open>values()\<close> its second components.
\<close>

type_synonym MatchupRow = "(string \<times> real) list"
type_synonym MatchupTable = "(string \<times> MatchupRow) list"

record DeckAnalysis =
  deck :: Deck
  expectedWinRate :: real
  tier :: string
  confidenceLevel :: real
  stability :: real
  weaknesses :: "string list"
  strengths :: "string list"
  recommendation :: "string option"

record DeckOptimizer =
  decks :: "Deck list"
  matchups :: MatchupTable
  environmentCoverage :: real

definition calculateEnvironmentCoverage :: "Deck list \<Rightarrow> real" where
  "calculateEnvironmentCoverage ds = foldl (\<lambda>sum deck. sum + share deck) 0 ds"

text \<open>The constructor sorts the deck array by share, descending, and caches the coverage.\<close>

definition DeckOptimizer_new :: "Deck list \<Rightarrow> MatchupTable \<Rightarrow> DeckOptimizer" where
  "DeckOptimizer_new ds m =
     (let sorted_decks = sort_desc share ds
      in \<lparr>decks = sorted_decks, matchups = m,
          environmentCoverage = calculateEnvironmentCoverage sorted_decks\<rparr>)"

text \<open>
  The opponent loop of \<open>calculateExpectedWinRate\<close>, on the pair
  (weightedWinRate, totalWeight).
\<close>

fun expected_loop ::
  "MatchupTable \<Rightarrow> string \<Rightarrow> Deck \<Rightarrow> Deck list \<Rightarrow> real \<times> real \<Rightarrow> real \<times> real" where
  "expected_loop m deckName d [] acc = acc"
| "expected_loop m deckName d (opponent # rest) (weightedWinRate, totalWeight) =
     (if name opponent = deckName then
        expected_loop m deckName d rest (weightedWinRate, totalWeight)
      else
        let matchupData = map_of m deckName;
            winRateVsOpponent =
              (case matchupData of
                 None \<Rightarrow> winRate d
               | Some row \<Rightarrow>
                   (case map_of row (name opponent) of
                      None \<Rightarrow> winRate d
                    | Some r \<Rightarrow> r));
            weight = share opponent
        in expected_loop m deckName d rest
             (weightedWinRate + winRateVsOpponent * weight, totalWeight + weight))"

definition calculateExpectedWinRate :: "DeckOptimizer \<Rightarrow> string \<Rightarrow> real" where
  "calculateExpectedWinRate opt deckName =
     (case find (\<lambda>d. name d = deckName) (decks opt) of
        None \<Rightarrow> 0
      | Some d \<Rightarrow>
          let (weightedWinRate, totalWeight) =
                expected_loop (matchups opt) deckName d (decks opt) (0, 0);
              remainingShare = 100 - environmentCoverage opt;
              (weightedWinRate', totalWeight') =
                (if remainingShare > 0
                 then (weightedWinRate + winRate d * remainingShare,
                       totalWeight + remainingShare)
                 else (weightedWinRate, totalWeight))
          in if totalWeight' > 0 then weightedWinRate' / totalWeight' else winRate d)"

subsection \<open>Number formatting\<close>

definition digit_char :: "nat \<Rightarrow> char" where
  "digit_char d = ''0123456789'' ! (d mod 10)"

fun show_nat :: "nat \<Rightarrow> string" where
  "show_nat n = (if n < 10 then [digit_char n]
                 else show_nat (n div 10) @ [digit_char (n mod 10)])"

text \<open>
  \<open>Number.prototype.toFixed(1)\<close>: the sign, then the integer n nearest to 10 |x| (the
  larger one on a tie), printed with a point before its last digit. (From 1e21 on
  JavaScript switches to exponent notation; win rates are far below.)
\<close>

definition toFixed1 :: "real \<Rightarrow> string" where
  "toFixed1 x =
     (let n = nat \<lfloor>\<bar>x\<bar> * 10 + 1 / 2\<rfloor>
      in (if x < 0 then ''-'' else []) @ show_nat (n div 10) @ ''.'' @ [digit_char (n mod 10)])"

text \<open>\<open>Math.round\<close> rounds to the nearest integer, a half upwards.\<close>

definition Math_round :: "real \<Rightarrow> real" where
  "Math_round x = of_int \<lfloor>x + 1 / 2\<rfloor>"

subsection \<open>Per-deck scores\<close>

fun analyzeMatchups_loop ::
  "MatchupRow \<Rightarrow> Deck list \<Rightarrow> string list \<times> string list \<Rightarrow> string list \<times> string list" where
  "analyzeMatchups_loop matchupData [] acc = acc"
| "analyzeMatchups_loop matchupData (opponent # rest) (strengths_acc, weaknesses_acc) =
     (case map_of matchupData (name opponent) of
        None \<Rightarrow> analyzeMatchups_loop matchupData rest (strengths_acc, weaknesses_acc)
      | Some wr \<Rightarrow>
          if wr \<ge> 60 then
            analyzeMatchups_loop matchupData rest
              (strengths_acc @ [name opponent @ '' ('' @ toFixed1 wr @ ''%)''], weaknesses_acc)
          else if wr \<le> 40 then
            analyzeMatchups_loop matchupData rest
              (strengths_acc, weaknesses_acc @ [name opponent @ '' ('' @ toFixed1 wr @ ''%)''])
          else analyzeMatchups_loop matchupData rest (strengths_acc, weaknesses_acc))"

text \<open>\<open>analyzeMatchups\<close> returns the pair (strengths, weaknesses).\<close>

definition analyzeMatchups :: "DeckOptimizer \<Rightarrow> string \<Rightarrow> string list \<times> string list" where
  "analyzeMatchups opt deckName =
     (case map_of (matchups opt) deckName of
        None \<Rightarrow> ([], [])
      | Some matchupData \<Rightarrow>
          let majorDecks = filter (\<lambda>d. share d \<ge> 3.0) (decks opt)
          in analyzeMatchups_loop matchupData majorDecks ([], []))"

definition calculateConfidence :: "Deck \<Rightarrow> real" where
  "calculateConfidence d =
     (let estimatedMatches = wins d + losses d + ties d
      in if estimatedMatches \<ge> 1000 then 1.0
         else if estimatedMatches \<ge> 500 then 0.9
         else if estimatedMatches \<ge> 200 then 0.8
         else if estimatedMatches \<ge> 100 then 0.7
         else if estimatedMatches \<ge> 50 then 0.6
         else 0.5)"

definition calculateStability :: "DeckOptimizer \<Rightarrow> string \<Rightarrow> real" where
  "calculateStability opt deckName =
     (case map_of (matchups opt) deckName of
        None \<Rightarrow> 0.5
      | Some matchupData \<Rightarrow>
          if length matchupData = 0 then 0.5
          else
            let winRates = map snd matchupData;
                mean = foldl (\<lambda>a b. a + b) 0 winRates / real (length winRates);
                variance = foldl (\<lambda>sum rate. sum + (rate - mean)\<^sup>2) 0 winRates
                             / real (length winRates);
                stdDev = sqrt variance
            in max 0 (min 1 (1 - stdDev / 20)))"

subsection \<open>Ranking\<close>

definition analyze_deck :: "DeckOptimizer \<Rightarrow> Deck \<Rightarrow> DeckAnalysis" where
  "analyze_deck opt d =
     (let ewr = calculateExpectedWinRate opt (name d);
          (strengths_d, weaknesses_d) = analyzeMatchups opt (name d)
      in \<lparr>deck = d, expectedWinRate = ewr, tier = DeckOptimizer_getTier ewr,
          confidenceLevel = calculateConfidence d,
          stability = calculateStability opt (name d),
          weaknesses = weaknesses_d, strengths = strengths_d, recommendation = None\<rparr>)"

text \<open>
  \<open>analyzeAllDecks\<close> pushes one analysis per deck, in deck order, and sorts the new
  array by expected win rate, descending and stably.
\<close>

definition analyzeAllDecks :: "DeckOptimizer \<Rightarrow> DeckAnalysis list" where
  "analyzeAllDecks opt = sort_desc expectedWinRate (map (analyze_deck opt) (decks opt))"

subsection \<open>Tournament lineup\<close>

record MainAnalysis = DeckAnalysis +
  confidence :: real
  favorableMatchups :: "(string \<times> real) list"
  unfavorableMatchups :: "(string \<times> real) list"

record TournamentLineup =
  main :: MainAnalysis
  sub :: "DeckAnalysis option"
  meta :: "DeckAnalysis option"

datatype js_error = TypeError

definition getFavorableMatchups :: "DeckOptimizer \<Rightarrow> string \<Rightarrow> (string \<times> real) list" where
  "getFavorableMatchups opt deckName =
     (case map_of (matchups opt) deckName of
        None \<Rightarrow> []
      | Some row \<Rightarrow> take 3 (sort_desc snd (filter (\<lambda>(_, wr). wr \<ge> 55) row)))"

definition getUnfavorableMatchups :: "DeckOptimizer \<Rightarrow> string \<Rightarrow> (string \<times> real) list" where
  "getUnfavorableMatchups opt deckName =
     (case map_of (matchups opt) deckName of
        None \<Rightarrow> []
      | Some row \<Rightarrow> take 3 (sort_key snd (filter (\<lambda>(_, wr). wr \<le> 45) row)))"

text \<open>
  The test of the sub-deck loop: some weakness of the main deck, cut at its first
  space (\<open>split(' ')[0]\<close>), occurs inside some strength of the analysis (\<open>includes\<close>).
\<close>

definition coversWeakness :: "string list \<Rightarrow> DeckAnalysis \<Rightarrow> bool" where
  "coversWeakness main_weaknesses analysis =
     list_ex (\<lambda>weakness.
        let weakDeck = takeWhile (\<lambda>c. c \<noteq> CHR '' '') weakness
        in list_ex (\<lambda>strength. sublist weakDeck strength) (strengths analysis))
       main_weaknesses"

text \<open>
  \<open>!==\<close> on objects compares references. Every element of the array returned by
  \<open>analyzeAllDecks\<close> is an object of its own, referred to here by its index in that
  array; \<open>main\<close> is built by an object spread, a new object, whose reference is the
  next free one. An empty deck list makes \<open>analyses[0]\<close> undefined, and reading
  \<open>baseMain.confidenceLevel\<close> throws a TypeError.
\<close>

type_synonym ref = nat

definition recommendTournamentLineup :: "DeckOptimizer \<Rightarrow> js_error + TournamentLineup" where
  "recommendTournamentLineup opt =
     (let analyses = analyzeAllDecks opt;
          objects = zip [0..<length analyses] analyses
      in case analyses of
           [] \<Rightarrow> Inl TypeError
         | baseMain # _ \<Rightarrow>
             let main_ref = length analyses;
                 main_obj = DeckAnalysis.extend baseMain
                   (MainAnalysis.fields
                      (Math_round (confidenceLevel baseMain * 100))
                      (getFavorableMatchups opt (name (deck baseMain)))
                      (getUnfavorableMatchups opt (name (deck baseMain))));
                 sub_obj = find (\<lambda>(r, analysis).
                              coversWeakness (weaknesses main_obj) analysis
                              \<and> expectedWinRate analysis \<ge> 51)
                            (take 9 (drop 1 objects));
                 meta_obj = find (\<lambda>(r, a).
                               share (deck a) < 5 \<and> expectedWinRate a \<ge> 53
                               \<and> r \<noteq> main_ref \<and> Some r \<noteq> map_option fst sub_obj)
                             objects
             in Inr \<lparr>main = main_obj, sub = map_option snd sub_obj,
                     meta = map_option snd meta_obj\<rparr>)"

section \<open>Trend prediction and diversity (class AdvancedMetaAnalyzer)\<close>

record TimeSeries =
  date :: string
  decks_ts :: "Deck list"

record MetaPrediction =
  risingDecks :: "string list"
  decliningDecks :: "string list"
  confidenceLevel_p :: real

text \<open>
  The trends \<open>Map\<close>, in insertion order: a new name is appended with an empty array,
  then the share is pushed on the array of that name.
\<close>

fun trends_push :: "(string \<times> real list) list \<Rightarrow> string \<Rightarrow> real \<Rightarrow> (string \<times> real list) list" where
  "trends_push [] n s = [(n, [s])]"
| "trends_push ((k, v) # rest) n s =
     (if k = n then (k, v @ [s]) # rest else (k, v) # trends_push rest n s)"

definition analyzeTrends :: "TimeSeries list \<Rightarrow> (string \<times> real list) list" where
  "analyzeTrends historicalData =
     foldl (\<lambda>trends dataPoint.
              foldl (\<lambda>trends' d. trends_push trends' (name d) (share d)) trends
                (decks_ts dataPoint))
       [] historicalData"

text \<open>
  The arithmetic of \<open>calculateSlope\<close>, with the rounding applied after each operation
  as a parameter; \<open>calculateSlope\<close> itself rounds to doubles. The divisor is
  n^2 (n^2 - 1) / 12, computed without rounding while it is below 2^53 and positive
  from two values on, so the division is defined.
\<close>

definition calculateSlope_with :: "(real \<Rightarrow> real) \<Rightarrow> real list \<Rightarrow> real" where
  "calculateSlope_with rnd vals =
     (if length vals < 2 then 0
      else
        let n = real (length vals);
            sumX = rnd (rnd (n * rnd (n - 1)) / 2);
            sumY = foldl (\<lambda>sum val. rnd (sum + val)) 0 vals;
            sumXY = foldl (\<lambda>sum (index, val). rnd (sum + rnd (real index * val))) 0
                      (zip [0..<length vals] vals);
            sumX2 = rnd (rnd (rnd (n * rnd (n - 1)) * rnd (rnd (2 * n) - 1)) / 6)
        in rnd (rnd (rnd (n * sumXY) - rnd (sumX * sumY))
                / rnd (rnd (n * sumX2) - rnd (sumX * sumX))))"

definition calculateSlope :: "real list \<Rightarrow> real" where
  "calculateSlope vals = calculateSlope_with round_double vals"

text \<open>
  The loop of \<open>identifyRisingDecks\<close> and that of \<open>identifyDecliningDecks\<close> collect the
  qualifying decks as pairs (name, slope); the declining loop stores \<open>Math.abs(slope)\<close>.
  The literal \<open>0.1\<close> is the double nearest to one tenth; 3.0 and 5.0 are doubles.
\<close>

fun rising_loop :: "(string \<times> real list) list \<Rightarrow> (string \<times> real) list \<Rightarrow> (string \<times> real) list" where
  "rising_loop [] acc = acc"
| "rising_loop ((deckName, shares) # rest) acc =
     (if length shares < 2 then rising_loop rest acc
      else
        let slope = calculateSlope shares
        in if slope > round_double 0.1 \<and> shares ! (length shares - 1) \<ge> 3.0
           then rising_loop rest (acc @ [(deckName, slope)])
           else rising_loop rest acc)"

fun declining_loop :: "(string \<times> real list) list \<Rightarrow> (string \<times> real) list \<Rightarrow> (string \<times> real) list" where
  "declining_loop [] acc = acc"
| "declining_loop ((deckName, shares) # rest) acc =
     (if length shares < 2 then declining_loop rest acc
      else
        let slope = calculateSlope shares
        in if slope < - round_double 0.1 \<and> shares ! 0 \<ge> 5.0
           then declining_loop rest (acc @ [(deckName, \<bar>slope\<bar>)])
           else declining_loop rest acc)"

text \<open>The sorted and cut candidate lists, before \<open>.map(d => d.name)\<close>.\<close>

definition rising_ranked :: "(string \<times> real list) list \<Rightarrow> (string \<times> real) list" where
  "rising_ranked trends = take 5 (sort_desc snd (rising_loop trends []))"

definition declining_ranked :: "(string \<times> real list) list \<Rightarrow> (string \<times> real) list" where
  "declining_ranked trends = take 5 (sort_desc snd (declining_loop trends []))"

definition identifyRisingDecks :: "(string \<times> real list) list \<Rightarrow> string list" where
  "identifyRisingDecks trends = map fst (rising_ranked trends)"

definition identifyDecliningDecks :: "(string \<times> real list) list \<Rightarrow> string list" where
  "identifyDecliningDecks trends = map fst (declining_ranked trends)"

definition calculatePredictionConfidence :: "TimeSeries list \<Rightarrow> real" where
  "calculatePredictionConfidence historicalData =
     (let dataPoints = length historicalData
      in if dataPoints \<ge> 10 then 0.9
         else if dataPoints \<ge> 5 then 0.7
         else if dataPoints \<ge> 3 then 0.5
         else 0.3)"

definition predictMetaEvolution :: "TimeSeries list \<Rightarrow> MetaPrediction" where
  "predictMetaEvolution historicalData =
     (if length historicalData < 2 then
        \<lparr>risingDecks = [], decliningDecks = [], confidenceLevel_p = 0\<rparr>
      else
        let trends = analyzeTrends historicalData
        in \<lparr>risingDecks = identifyRisingDecks trends,
            decliningDecks = identifyDecliningDecks trends,
            confidenceLevel_p = calculatePredictionConfidence historicalData\<rparr>)"

text \<open>\<open>AdvancedMetaAnalyzer.calculateDiversityIndex\<close>: the complement of Simpson's index.\<close>

definition AdvancedMetaAnalyzer_calculateDiversityIndex :: "Deck list \<Rightarrow> real" where
  "AdvancedMetaAnalyzer_calculateDiversityIndex ds =
     (let totalShare = foldl (\<lambda>sum d. sum + share d) 0 ds
      in if totalShare = 0 then 0
         else
           let simpsonIndex =
                 foldl (\<lambda>sum d. let proportion = share d / totalShare
                                 in sum + proportion * proportion) 0 ds
           in 1 - simpsonIndex)"

section \<open>The normalized Shannon index (class AdvancedMetaAnalysis)\<close>

text \<open>
  The deck records of this class are its own; the fields carry a suffix to keep them
  apart from those of \<open>Deck\<close>.
\<close>

record DeckData =
  name_dd :: string
  share_dd :: real
  winRate_dd :: real
  matchups_dd :: "(string \<times> real) list"
  tier_dd :: string
  metaScore_dd :: real
  placement_dd :: real

definition mkDeckData :: "string \<Rightarrow> real \<Rightarrow> DeckData" where
  "mkDeckData n s =
     \<lparr>name_dd = n, share_dd = s, winRate_dd = 0, matchups_dd = [], tier_dd = [],
      metaScore_dd = 0, placement_dd = 0\<rparr>"

text \<open>
  A result of this computation is \<open>None\<close> when JavaScript yields NaN: \<open>Math.log2\<close> of a
  negative proportion (a positive share under a negative total) is NaN, and NaN
  propagates through the arithmetic and \<open>Math.round\<close>. This is the \<open>forEach\<close> loop on
  the accumulator \<open>diversity\<close>.
\<close>

fun shannon_loop :: "real \<Rightarrow> DeckData list \<Rightarrow> real option \<Rightarrow> real option" where
  "shannon_loop totalShare [] diversity = diversity"
| "shannon_loop totalShare (d # rest) diversity =
     (if share_dd d > 0 then
        let proportion = share_dd d / totalShare
        in if proportion > 0
           then shannon_loop totalShare rest
                  (map_option (\<lambda>dv. dv - proportion * log 2 proportion) diversity)
           else shannon_loop totalShare rest None
      else shannon_loop totalShare rest diversity)"

definition AdvancedMetaAnalysis_calculateDiversityIndex :: "DeckData list \<Rightarrow> real option" where
  "AdvancedMetaAnalysis_calculateDiversityIndex ds =
     (let totalShare = foldl (\<lambda>sum d. sum + share_dd d) 0 ds
      in if totalShare = 0 then Some 0
         else
           let diversity = shannon_loop totalShare ds (Some 0);
               maxDiversity = log 2 (real (length ds));
               normalizedDiversity =
                 (if maxDiversity > 0
                  then map_option (\<lambda>dv. (dv / maxDiversity) * 100) diversity
                  else Some 0)
           in map_option (\<lambda>nd. Math_round (nd * 100) / 100) normalizedDiversity)"

section \<open>The specification's formulas\<close>

text \<open>
  The win rate of deck d against an opponent, as the specification words it: the entry
  of the matchup table if present, else d's own aggregate win rate.
\<close>

definition matchup_rate :: "MatchupTable \<Rightarrow> string \<Rightarrow> Deck \<Rightarrow> Deck \<Rightarrow> real" where
  "matchup_rate m deckName d opponent =
     (case map_of m deckName of
        None \<Rightarrow> winRate d
      | Some row \<Rightarrow> (case map_of row (name opponent) of None \<Rightarrow> winRate d | Some r \<Rightarrow> r))"

text \<open>
  The terms (rate, weight) of the expected win rate of d over a field: one per other
  deck, weighted by its share, and a last one for the remaining share when positive.
\<close>

definition weighted_terms :: "Deck list \<Rightarrow> MatchupTable \<Rightarrow> Deck \<Rightarrow> (real \<times> real) list" where
  "weighted_terms field m d =
     (let remaining = 100 - sum_list (map share field)
      in map (\<lambda>opponent. (matchup_rate m (name d) d opponent, share opponent))
           (filter (\<lambda>opponent. name opponent \<noteq> name d) field)
         @ (if remaining > 0 then [(winRate d, remaining)] else []))"

definition spec_expectedWinRate :: "Deck list \<Rightarrow> MatchupTable \<Rightarrow> Deck \<Rightarrow> real" where
  "spec_expectedWinRate field m d =
     (let terms = weighted_terms field m d;
          weightedSum = sum_list (map (\<lambda>(r, w). r * w) terms);
          totalWeight = sum_list (map snd terms)
      in if totalWeight = 0 then winRate d else weightedSum / totalWeight)"




section \<open>Example data\<close>

definition ex_field :: "Deck list" where
  "ex_field = [mkDeck ''B'' 30 50, mkDeck ''A'' 40 55, mkDeck ''C'' 20 45]"

definition ex_matchups :: MatchupTable where
  "ex_matchups = [(''A'', [(''B'', 60)])]"


text \<open>A field of two decks without matchup data: the low-share deck has the better win rate.\<close>

definition ex_lineup_field :: "Deck list" where
  "ex_lineup_field = [mkDeck ''B'' 50 50, mkDeck ''A'' 4 60]"




section \<open>Double arithmetic: properties\<close>

















section \<open>Coverage selection: properties\<close>



lemma sort_desc_sorted: "sorted (map (\<lambda>x. - k x) (sort_desc k xs))"
  by (simp add: sort_desc_def)

lemma sort_desc_mset: "mset (sort_desc k xs) = mset xs"
  by (simp add: sort_desc_def)

lemma sort_desc_stable:
  "filter (\<lambda>x. k x = v) (sort_desc k xs) = filter (\<lambda>x. k x = v) xs"
  using sort_key_stable [of "\<lambda>x. - k x" "- v" xs] by (simp add: sort_desc_def)


lemma sort_desc_set: "set (sort_desc k xs) = set xs"
  by (simp add: sort_desc_def)





section \<open>Tier classification: properties\<close>

text \<open>
  C6. The tier classifier maps an expected win rate x to SS when x >= 57, to S when
  55 <= x < 57, to A+ when 53 <= x < 55, to A when 51 <= x < 53, to B when
  49 <= x < 51 and to C below 49: every boundary belongs to the tier above it.
  \<open>DataStorage.getTier\<close> returns exactly these labels, \<open>DeckOptimizer.getTier\<close>
  returns a label whose tier (the text before the first space) is the same one.
  In particular 57.0 is SS and 56.999 is S.
\<close>

theorem C6_tier_thresholds:
  "(57 \<le> x \<longrightarrow> DataStorage_getTier x = ''SS'')
   \<and> (55 \<le> x \<and> x < 57 \<longrightarrow> DataStorage_getTier x = ''S'')
   \<and> (53 \<le> x \<and> x < 55 \<longrightarrow> DataStorage_getTier x = ''A+'')
   \<and> (51 \<le> x \<and> x < 53 \<longrightarrow> DataStorage_getTier x = ''A'')
   \<and> (49 \<le> x \<and> x < 51 \<longrightarrow> DataStorage_getTier x = ''B'')
   \<and> (x < 49 \<longrightarrow> DataStorage_getTier x = ''C'')
   \<and> tier_of_label (DeckOptimizer_getTier x) = DataStorage_getTier x
   \<and> DataStorage_getTier 57.0 = ''SS''
   \<and> DataStorage_getTier 56.999 = ''S''
   \<and> tier_of_label (DeckOptimizer_getTier 57.0) = ''SS''
   \<and> tier_of_label (DeckOptimizer_getTier 56.999) = ''S''"
  by (simp add: DataStorage_getTier_def DeckOptimizer_getTier_def tier_of_label_def)

theorem C6_tier_thresholds_witness:
  "DataStorage_getTier 57 = ''SS'' \<and> DataStorage_getTier 55 = ''S''
   \<and> DataStorage_getTier 53 = ''A+'' \<and> DataStorage_getTier 51 = ''A''
   \<and> DataStorage_getTier 49 = ''B'' \<and> DataStorage_getTier 48.9 = ''C''
   \<and> tier_of_label (DeckOptimizer_getTier 55) = ''S''"
proof -
  have t1: "DataStorage_getTier 57 = ''SS''"
    using C6_tier_thresholds [of 57, THEN conjunct1] by simp
  have t2: "DataStorage_getTier 55 = ''S''"
    using C6_tier_thresholds [of 55, THEN conjunct2, THEN conjunct1] by simp
  have t3: "DataStorage_getTier 53 = ''A+''"
    using C6_tier_thresholds [of 53, THEN conjunct2, THEN conjunct2, THEN conjunct1] by simp
  have t4: "DataStorage_getTier 51 = ''A''"
    using C6_tier_thresholds [of 51, THEN conjunct2, THEN conjunct2, THEN conjunct2,
        THEN conjunct1] by simp
  have t5: "DataStorage_getTier 49 = ''B''"
    using C6_tier_thresholds [of 49, THEN conjunct2, THEN conjunct2, THEN conjunct2,
        THEN conjunct2, THEN conjunct1] by simp
  have t6: "DataStorage_getTier 48.9 = ''C''"
    using C6_tier_thresholds [of "48.9", THEN conjunct2, THEN conjunct2, THEN conjunct2,
        THEN conjunct2, THEN conjunct2, THEN conjunct1] by simp
  have t7: "tier_of_label (DeckOptimizer_getTier 55) = ''S''"
    using C6_tier_thresholds [of 55, THEN conjunct2, THEN conjunct2, THEN conjunct2,
        THEN conjunct2, THEN conjunct2, THEN conjunct2, THEN conjunct1] t2 by simp
  show ?thesis using t1 t2 t3 t4 t5 t6 t7 by simp
qed

section \<open>Expected win rate: properties\<close>

lemma foldl_share_sum: "foldl (\<lambda>sum deck. sum + share deck) a xs = a + sum_list (map share xs)"
  by (induction xs arbitrary: a) (simp_all add: add.assoc)

lemma calculateEnvironmentCoverage_sum:
  "calculateEnvironmentCoverage xs = sum_list (map share xs)"
  by (simp add: calculateEnvironmentCoverage_def foldl_share_sum)

lemma sum_list_mset_cong:
  fixes f :: "'a \<Rightarrow> real"
  assumes "mset xs = mset ys"
  shows "sum_list (map f xs) = sum_list (map f ys)"
proof -
  have "sum_mset (image_mset f (mset xs)) = sum_mset (image_mset f (mset ys))"
    using assms by simp
  then show ?thesis by (simp only: mset_map [symmetric] sum_mset_sum_list)
qed

lemma sum_list_sort_desc:
  fixes f :: "'a \<Rightarrow> real"
  shows "sum_list (map f (filter P (sort_desc k xs))) = sum_list (map f (filter P xs))"
  by (rule sum_list_mset_cong) (simp add: sort_desc_mset)

lemma expected_loop_sums:
  "expected_loop m n d xs (w, t) =
     (w + sum_list (map (\<lambda>opponent. matchup_rate m n d opponent * share opponent)
            (filter (\<lambda>opponent. name opponent \<noteq> n) xs)),
      t + sum_list (map share (filter (\<lambda>opponent. name opponent \<noteq> n) xs)))"
  by (induction xs arbitrary: w t) (simp_all add: matchup_rate_def Let_def add.assoc)

lemma find_name: "find (\<lambda>d. name d = n) xs = Some d \<Longrightarrow> name d = n"
  by (auto simp: find_Some_iff)

lemma DeckOptimizer_new_fields:
  "decks (DeckOptimizer_new ds m) = sort_desc share ds"
  "matchups (DeckOptimizer_new ds m) = m"
  "environmentCoverage (DeckOptimizer_new ds m) = sum_list (map share ds)"
  using sum_list_sort_desc [of share "\<lambda>_. True" share ds]
  by (simp_all add: DeckOptimizer_new_def Let_def calculateEnvironmentCoverage_sum)

lemma expected_closed_form:
  assumes "find (\<lambda>d. name d = n) (decks (DeckOptimizer_new ds m)) = Some d"
  shows "calculateExpectedWinRate (DeckOptimizer_new ds m) n =
           (if 0 < sum_list (map snd (weighted_terms ds m d))
            then sum_list (map (\<lambda>(r, w). r * w) (weighted_terms ds m d))
                 / sum_list (map snd (weighted_terms ds m d))
            else winRate d)"
proof -
  have nd: "name d = n" using assms by (rule find_name)
  show ?thesis
    using assms unfolding DeckOptimizer_new_fields
    by (simp add: calculateExpectedWinRate_def DeckOptimizer_new_fields expected_loop_sums
        sum_list_sort_desc weighted_terms_def nd Let_def o_def split_def)
qed

lemma weighted_terms_total_nonneg:
  assumes "\<forall>x\<in>set ds. 0 \<le> share x"
  shows "0 \<le> sum_list (map snd (weighted_terms ds m d))"
proof -
  have "0 \<le> sum_list (map share (filter (\<lambda>opponent. name opponent \<noteq> name d) ds))"
    using assms by (intro sum_list_nonneg) auto
  then show ?thesis by (simp add: weighted_terms_def Let_def o_def)
qed

text \<open>
  C3. For a deck d of the field (the deck that the lookup by name finds),
  calculateExpectedWinRate is the weighted average of the terms of \<open>weighted_terms\<close>:
  for every other deck of the field its matchup entry, or d's own win rate when there
  is none, weighted by that deck's share, and, when 100 minus the sum of all shares is
  positive, d's win rate weighted by that remainder. When the total weight is 0 the
  result is d's win rate. The code tests the total weight with \<open>> 0\<close>; with shares
  that are not negative the total weight is never negative, and the result is the
  specification's formula.
\<close>

theorem C3_expected_win_rate:
  assumes "find (\<lambda>x. name x = n) (decks (DeckOptimizer_new ds m)) = Some d"
  shows "calculateExpectedWinRate (DeckOptimizer_new ds m) n =
           (if 0 < sum_list (map snd (weighted_terms ds m d))
            then sum_list (map (\<lambda>(r, w). r * w) (weighted_terms ds m d))
                 / sum_list (map snd (weighted_terms ds m d))
            else winRate d)
         \<and> (sum_list (map snd (weighted_terms ds m d)) = 0
              \<longrightarrow> calculateExpectedWinRate (DeckOptimizer_new ds m) n = winRate d)
         \<and> ((\<forall>x\<in>set ds. 0 \<le> share x)
              \<longrightarrow> calculateExpectedWinRate (DeckOptimizer_new ds m) n
                    = spec_expectedWinRate ds m d)"
proof -
  note cf = expected_closed_form [OF assms]
  have "calculateExpectedWinRate (DeckOptimizer_new ds m) n = spec_expectedWinRate ds m d"
    if "\<forall>x\<in>set ds. 0 \<le> share x"
    using cf weighted_terms_total_nonneg [OF that, of m d]
    by (simp add: spec_expectedWinRate_def Let_def)
  with cf show ?thesis by simp
qed

lemma ex_field_sorted:
  "sort_desc share ex_field = [mkDeck ''A'' 40 55, mkDeck ''B'' 30 50, mkDeck ''C'' 20 45]"
  by (simp add: ex_field_def sort_desc_def mkDeck_def)

theorem C3_expected_win_rate_witness:
  "find (\<lambda>x. name x = ''A'') (decks (DeckOptimizer_new ex_field ex_matchups))
     = Some (mkDeck ''A'' 40 55)
   \<and> list_all (\<lambda>x. 0 \<le> share x) ex_field
   \<and> weighted_terms ex_field ex_matchups (mkDeck ''A'' 40 55) = [(60, 30), (55, 20), (55, 10)]
   \<and> calculateExpectedWinRate (DeckOptimizer_new ex_field ex_matchups) ''A'' = 57.5
   \<and> spec_expectedWinRate ex_field ex_matchups (mkDeck ''A'' 40 55) = 57.5
   \<and> find (\<lambda>x. name x = ''A'') (decks (DeckOptimizer_new [mkDeck ''A'' 100 55] []))
     = Some (mkDeck ''A'' 100 55)
   \<and> sum_list (map snd (weighted_terms [mkDeck ''A'' 100 55] [] (mkDeck ''A'' 100 55))) = 0
   \<and> calculateExpectedWinRate (DeckOptimizer_new [mkDeck ''A'' 100 55] []) ''A'' = 55"
proof -
  have f: "find (\<lambda>x. name x = ''A'') (decks (DeckOptimizer_new ex_field ex_matchups))
     = Some (mkDeck ''A'' 40 55)"
    by (simp add: DeckOptimizer_new_fields ex_field_sorted) (simp add: mkDeck_def)
  have nn: "\<forall>x\<in>set ex_field. 0 \<le> share x"
    by (simp add: ex_field_def mkDeck_def)
  have wt: "weighted_terms ex_field ex_matchups (mkDeck ''A'' 40 55)
      = [(60, 30), (55, 20), (55, 10)]"
    by (simp add: weighted_terms_def ex_field_def ex_matchups_def matchup_rate_def mkDeck_def)
  note t = C3_expected_win_rate [OF f]
  have v: "calculateExpectedWinRate (DeckOptimizer_new ex_field ex_matchups) ''A'' = 57.5"
    using t by (simp add: wt)
  have sp: "spec_expectedWinRate ex_field ex_matchups (mkDeck ''A'' 40 55) = 57.5"
    using t nn v by simp
  have f1: "find (\<lambda>x. name x = ''A'') (decks (DeckOptimizer_new [mkDeck ''A'' 100 55] []))
     = Some (mkDeck ''A'' 100 55)"
    by (simp add: DeckOptimizer_new_fields sort_desc_def) (simp add: mkDeck_def)
  have z: "sum_list (map snd (weighted_terms [mkDeck ''A'' 100 55] [] (mkDeck ''A'' 100 55))) = 0"
    by (simp add: weighted_terms_def mkDeck_def)
  have v1: "calculateExpectedWinRate (DeckOptimizer_new [mkDeck ''A'' 100 55] []) ''A'' = 55"
    using C3_expected_win_rate [OF f1] z by (simp add: mkDeck_def)
  from nn have la: "list_all (\<lambda>x. 0 \<le> share x) ex_field"
    by (simp add: list_all_iff)
  show ?thesis using f la wt v sp f1 z v1 by blast
qed

text \<open>
  C4. For a deck name that does not occur in the field, calculateExpectedWinRate
  returns 0: the lookup finds no deck and the function returns at once.
\<close>

theorem C4_absent_deck_zero:
  assumes "n \<notin> set (map name ds)"
  shows "calculateExpectedWinRate (DeckOptimizer_new ds m) n = 0"
proof -
  have "find (\<lambda>d. name d = n) (sort_desc share ds) = None"
    using assms by (auto simp: find_None_iff sort_desc_set)
  then show ?thesis
    by (simp add: calculateExpectedWinRate_def DeckOptimizer_new_fields)
qed

theorem C4_absent_deck_zero_witness:
  "''Z'' \<notin> set (map name ex_field)
   \<and> calculateExpectedWinRate (DeckOptimizer_new ex_field ex_matchups) ''Z'' = 0"
proof -
  have a: "''Z'' \<notin> set (map name ex_field)"
    by (simp add: ex_field_def mkDeck_def)
  from C4_absent_deck_zero [OF a] a show ?thesis by simp
qed

section \<open>Trend prediction on short histories\<close>

text \<open>
  C2 (as the code has it). For a history of 0 or 1 snapshots predictMetaEvolution
  returns empty risingDecks and decliningDecks and the confidenceLevel 0 of its guard,
  not the 0.3 of the lowest band of calculatePredictionConfidence, which is never
  called on such a history.
\<close>

theorem C2_short_history_prediction:
  assumes "length h < 2"
  shows "predictMetaEvolution h
           = \<lparr>risingDecks = [], decliningDecks = [], confidenceLevel_p = 0\<rparr>
         \<and> calculatePredictionConfidence h = 0.3"
  using assms by (simp add: predictMetaEvolution_def calculatePredictionConfidence_def)

theorem C2_short_history_prediction_witness:
  "length [\<lparr>date = ''2025-01-01'', decks_ts = [mkDeck ''A'' 40 55]\<rparr>] < 2
   \<and> risingDecks (predictMetaEvolution
        [\<lparr>date = ''2025-01-01'', decks_ts = [mkDeck ''A'' 40 55]\<rparr>]) = []
   \<and> decliningDecks (predictMetaEvolution
        [\<lparr>date = ''2025-01-01'', decks_ts = [mkDeck ''A'' 40 55]\<rparr>]) = []
   \<and> confidenceLevel_p (predictMetaEvolution
        [\<lparr>date = ''2025-01-01'', decks_ts = [mkDeck ''A'' 40 55]\<rparr>]) = 0"
proof -
  have l: "length [\<lparr>date = ''2025-01-01'', decks_ts = [mkDeck ''A'' 40 55]\<rparr>] < 2"
    by simp
  from C2_short_history_prediction [OF l] l show ?thesis by simp
qed

theorem C2_lowest_band_counterexample:
  "confidenceLevel_p (predictMetaEvolution []) \<noteq> 0.3
   \<and> confidenceLevel_p (predictMetaEvolution
        [\<lparr>date = ''2025-01-01'', decks_ts = [mkDeck ''A'' 40 55]\<rparr>]) \<noteq> 0.3"
  by (simp add: predictMetaEvolution_def)

section \<open>Diversity indices: properties\<close>

lemma foldl_share_dd_sum:
  "foldl (\<lambda>sum d. sum + share_dd d) a xs = a + sum_list (map share_dd xs)"
  by (induction xs arbitrary: a) (simp_all add: add.assoc)

lemma simpson_single: "AdvancedMetaAnalyzer_calculateDiversityIndex [d] = 0"
  by (simp add: AdvancedMetaAnalyzer_calculateDiversityIndex_def Let_def)

lemma shannon_single: "AdvancedMetaAnalysis_calculateDiversityIndex [d] = Some 0"
  by (simp add: AdvancedMetaAnalysis_calculateDiversityIndex_def Let_def Math_round_def)

text \<open>
  C8. On a field whose total share is 0, and on a field of one deck or none, the
  Simpson-complement index is 0 and the normalized Shannon index is the number 0 (not
  NaN); in particular on a single deck with share 100.
\<close>

theorem C8_degenerate_diversity:
  "(sum_list (map share ds) = 0 \<longrightarrow> AdvancedMetaAnalyzer_calculateDiversityIndex ds = 0)
   \<and> (length ds \<le> 1 \<longrightarrow> AdvancedMetaAnalyzer_calculateDiversityIndex ds = 0)
   \<and> (sum_list (map share_dd dds) = 0
        \<longrightarrow> AdvancedMetaAnalysis_calculateDiversityIndex dds = Some 0)
   \<and> (length dds \<le> 1 \<longrightarrow> AdvancedMetaAnalysis_calculateDiversityIndex dds = Some 0)
   \<and> AdvancedMetaAnalyzer_calculateDiversityIndex [mkDeck ''A'' 100 55] = 0
   \<and> AdvancedMetaAnalysis_calculateDiversityIndex [mkDeckData ''A'' 100] = Some 0"
proof -
  have s0: "AdvancedMetaAnalyzer_calculateDiversityIndex ds = 0"
    if "sum_list (map share ds) = 0"
    using that by (simp add: AdvancedMetaAnalyzer_calculateDiversityIndex_def foldl_share_sum)
  have s1: "AdvancedMetaAnalyzer_calculateDiversityIndex ds = 0" if "length ds \<le> 1"
  proof (cases ds)
    case Nil
    then show ?thesis by (simp add: AdvancedMetaAnalyzer_calculateDiversityIndex_def)
  next
    case (Cons d rest)
    with that have "ds = [d]" by simp
    then show ?thesis by (simp add: simpson_single)
  qed
  have h0: "AdvancedMetaAnalysis_calculateDiversityIndex dds = Some 0"
    if "sum_list (map share_dd dds) = 0"
    using that
    by (simp add: AdvancedMetaAnalysis_calculateDiversityIndex_def foldl_share_dd_sum)
  have h1: "AdvancedMetaAnalysis_calculateDiversityIndex dds = Some 0" if "length dds \<le> 1"
  proof (cases dds)
    case Nil
    then show ?thesis by (simp add: AdvancedMetaAnalysis_calculateDiversityIndex_def)
  next
    case (Cons d rest)
    with that have "dds = [d]" by simp
    then show ?thesis by (simp add: shannon_single)
  qed
  show ?thesis using s0 s1 h0 h1 simpson_single shannon_single by blast
qed

theorem C8_degenerate_diversity_witness:
  "sum_list (map share [mkDeck ''A'' 5 50, mkDeck ''B'' (- 5) 50]) = 0
   \<and> AdvancedMetaAnalyzer_calculateDiversityIndex [mkDeck ''A'' 5 50, mkDeck ''B'' (- 5) 50] = 0
   \<and> length [mkDeck ''A'' 100 55] \<le> 1
   \<and> AdvancedMetaAnalyzer_calculateDiversityIndex [mkDeck ''A'' 100 55] = 0
   \<and> sum_list (map share_dd [mkDeckData ''A'' 0, mkDeckData ''B'' 0]) = 0
   \<and> AdvancedMetaAnalysis_calculateDiversityIndex [mkDeckData ''A'' 0, mkDeckData ''B'' 0]
       = Some 0
   \<and> length [mkDeckData ''A'' 100] \<le> 1
   \<and> AdvancedMetaAnalysis_calculateDiversityIndex [mkDeckData ''A'' 100] = Some 0"
proof -
  have a: "sum_list (map share [mkDeck ''A'' 5 50, mkDeck ''B'' (- 5) 50]) = 0"
    by (simp add: mkDeck_def)
  have b: "length [mkDeck ''A'' 100 55] \<le> 1" by simp
  have c: "sum_list (map share_dd [mkDeckData ''A'' 0, mkDeckData ''B'' 0]) = 0"
    by (simp add: mkDeckData_def)
  have d: "length [mkDeckData ''A'' 100] \<le> 1" by simp
  note t1 = C8_degenerate_diversity
    [of "[mkDeck ''A'' 5 50, mkDeck ''B'' (- 5) 50]" "[mkDeckData ''A'' 0, mkDeckData ''B'' 0]"]
  note t2 = C8_degenerate_diversity [of "[mkDeck ''A'' 100 55]" "[mkDeckData ''A'' 100]"]
  show ?thesis using a b c d t1 t2 by blast
qed

section \<open>Tournament lineup: the meta slot\<close>

lemma ex_lineup_ewr_A: "calculateExpectedWinRate (DeckOptimizer_new ex_lineup_field []) ''A'' = 60"
  by (simp add: calculateExpectedWinRate_def DeckOptimizer_new_def ex_lineup_field_def Let_def
   sort_desc_def mkDeck_def calculateEnvironmentCoverage_def)

lemma ex_lineup_ewr_B: "calculateExpectedWinRate (DeckOptimizer_new ex_lineup_field []) ''B'' = 50"
  by (simp add: calculateExpectedWinRate_def DeckOptimizer_new_def ex_lineup_field_def Let_def
   sort_desc_def mkDeck_def calculateEnvironmentCoverage_def)

lemma ex_lineup_decks:
  "decks (DeckOptimizer_new ex_lineup_field []) = [mkDeck ''B'' 50 50, mkDeck ''A'' 4 60]"
  "matchups (DeckOptimizer_new ex_lineup_field []) = []"
  by (simp_all add: DeckOptimizer_new_fields) (simp add: ex_lineup_field_def sort_desc_def mkDeck_def)

lemma ex_lineup_analyses:
  "map (\<lambda>a. (name (deck a), share (deck a), expectedWinRate a))
     (analyzeAllDecks (DeckOptimizer_new ex_lineup_field []))
   = [(''A'', 4, 60), (''B'', 50, 50)]"
  unfolding analyzeAllDecks_def ex_lineup_decks
  using ex_lineup_ewr_A ex_lineup_ewr_B
  by (simp add: analyze_deck_def sort_desc_def Let_def split_def mkDeck_def)

text \<open>
  C1 (evaluation). The meta slot is meant to exclude the main deck, and the code
  compares each analysis with \<open>main\<close> by reference; but \<open>main\<close> is a copy made by an
  object spread, so the comparison never excludes anything. On a field where the deck
  of highest expected win rate has a share below 5 and an expected win rate of at least
  53, the meta slot is that same deck: here main is A, there is no sub, and meta is A.
\<close>

theorem C1_meta_slot_is_main_deck:
  "(case recommendTournamentLineup (DeckOptimizer_new ex_lineup_field []) of
      Inl e \<Rightarrow> None
    | Inr l \<Rightarrow> Some (name (deck (main l)), map_option (\<lambda>a. name (deck a)) (sub l),
                     map_option (\<lambda>a. name (deck a)) (meta l)))
   = Some (''A'', None, Some ''A'')"
  unfolding recommendTournamentLineup_def analyzeAllDecks_def ex_lineup_decks
  using ex_lineup_ewr_A ex_lineup_ewr_B
  apply (simp add: analyze_deck_def sort_desc_def Let_def split_def mkDeck_def)
  apply (simp add: analyzeMatchups_def  ex_lineup_decks coversWeakness_def DeckAnalysis.extend_def)
  done

section \<open>Tournament lineup: what the meta slot does satisfy\<close>

lemma find_Some_holds: "find P xs = Some x \<Longrightarrow> P x \<and> x \<in> set xs"
  by (induction xs) (auto split: if_splits)

lemma lineup_meta_guarantees:
  assumes "recommendTournamentLineup opt = Inr l" "meta l = Some a"
  shows "share (deck a) < 5 \<and> expectedWinRate a \<ge> 53 \<and> a \<in> set (analyzeAllDecks opt)"
proof -
  obtain b rest where an: "analyzeAllDecks opt = b # rest"
    using assms(1) by (cases "analyzeAllDecks opt") (simp_all add: recommendTournamentLineup_def)
  from assms an obtain P where
    "map_option snd (find (\<lambda>(r, a). share (deck a) < 5 \<and> expectedWinRate a \<ge> 53 \<and> P r)
        (zip [0..<length (b # rest)] (b # rest))) = Some a"
    by (auto simp: recommendTournamentLineup_def Let_def simp del: upt_Suc zip_Cons_Cons)
  then obtain r where
    f: "find (\<lambda>(r, a). share (deck a) < 5 \<and> expectedWinRate a \<ge> 53 \<and> P r)
        (zip [0..<length (b # rest)] (b # rest)) = Some (r, a)"
    by auto
  from find_Some_holds [OF f] have p: "share (deck a) < 5 \<and> expectedWinRate a \<ge> 53"
    by simp
  from find_Some_holds [OF f] have "a \<in> set (b # rest)"
    by (blast dest: set_zip_rightD)
  with p an show ?thesis by simp
qed

section \<open>Ranking: determinism\<close>

lemma sort_desc_idem: "sort_desc k (sort_desc k xs) = sort_desc k xs"
  unfolding sort_desc_def by (rule sort_key_id_if_sorted) simp

lemma DeckOptimizer_new_idem:
  "DeckOptimizer_new (decks (DeckOptimizer_new ds m)) m = DeckOptimizer_new ds m"
  by (simp add: DeckOptimizer_new_def Let_def sort_desc_idem)

text \<open>
  C9. The ranked output of analyzeAllDecks is a function of the deck list and the
  matchup table alone. The constructor sorts the caller's deck array in place, so a
  second run on the same input starts from the array as the first run left it:
  constructing the optimizer again from that array and analysing again gives the same
  analyses in the same order. The output is the list of the per-deck analyses, stably
  sorted by expected win rate, descending.
\<close>

theorem C9_analyzeAllDecks_deterministic:
  "analyzeAllDecks (DeckOptimizer_new (decks (DeckOptimizer_new ds m)) m)
     = analyzeAllDecks (DeckOptimizer_new ds m)
   \<and> mset (analyzeAllDecks (DeckOptimizer_new ds m))
     = mset (map (analyze_deck (DeckOptimizer_new ds m)) (sort_desc share ds))
   \<and> sorted (map (\<lambda>a. - expectedWinRate a) (analyzeAllDecks (DeckOptimizer_new ds m)))
   \<and> (\<forall>v. filter (\<lambda>a. expectedWinRate a = v) (analyzeAllDecks (DeckOptimizer_new ds m))
         = filter (\<lambda>a. expectedWinRate a = v)
             (map (analyze_deck (DeckOptimizer_new ds m)) (sort_desc share ds)))"
proof -
  have a: "analyzeAllDecks (DeckOptimizer_new (decks (DeckOptimizer_new ds m)) m)
     = analyzeAllDecks (DeckOptimizer_new ds m)"
    by (simp only: DeckOptimizer_new_idem)
  have b: "analyzeAllDecks (DeckOptimizer_new ds m)
     = sort_desc expectedWinRate
         (map (analyze_deck (DeckOptimizer_new ds m)) (sort_desc share ds))"
    by (simp add: analyzeAllDecks_def DeckOptimizer_new_fields)
  show ?thesis
    unfolding a unfolding b
    by (simp add: sort_desc_mset sort_desc_sorted sort_desc_stable del: mset_map)
qed

theorem C9_analyzeAllDecks_deterministic_witness:
  "map (\<lambda>a. (name (deck a), share (deck a), expectedWinRate a))
     (analyzeAllDecks
        (DeckOptimizer_new (decks (DeckOptimizer_new ex_lineup_field [])) []))
   = [(''A'', 4, 60), (''B'', 50, 50)]"
  using C9_analyzeAllDecks_deterministic [of ex_lineup_field "[]"] ex_lineup_analyses
  by simp

section \<open>Trend prediction: the slope\<close>










section \<open>Trend prediction: the share history of a deck\<close>











section \<open>Trend prediction: classification\<close>












subsection \<open>Slopes at the threshold\<close>

















section \<open>Trend prediction: the five strongest trends\<close>












section \<open>Tournament lineup: the top analysis as meta slot\<close>

text \<open>
  The sub deck is searched among the analyses of ranks 2 to 10, so its reference is
  never that of the first analysis; and no analysis has the reference of \<open>main\<close>.
  Hence a first analysis with a share below 5 and an expected win rate of at least 53
  is always returned as the meta slot, next to being the main deck.
\<close>

lemma zip_upt_Cons: "zip [0..<Suc (length rest)] (b # rest) = (0, b) # zip [1..<Suc (length rest)] rest"
  by (simp add: upt_rec [of 0] del: upt_Suc)

lemma find_sub_ref_pos:
  assumes "find P (take 9 (zip [1..<Suc (length rest)] rest)) = Some (r, a)"
  shows "r \<noteq> 0"
proof -
  from find_Some_holds [OF assms] have "(r, a) \<in> set (take 9 (zip [1..<Suc (length rest)] rest))"
    by simp
  then have "(r, a) \<in> set (zip [1..<Suc (length rest)] rest)"
    by (rule in_set_takeD)
  then have "r \<in> set [1..<Suc (length rest)]"
    by (rule set_zip_leftD)
  then have "1 \<le> r" by (simp del: upt_Suc)
  then show ?thesis by simp
qed

lemma lineup_meta_is_top_analysis:
  assumes "analyzeAllDecks opt = b # rest" "share (deck b) < 5" "expectedWinRate b \<ge> 53"
  shows "\<exists>l. recommendTournamentLineup opt = Inr l \<and> meta l = Some b
           \<and> deck (main l) = deck b"
proof -
  let ?P = "\<lambda>(r :: nat, analysis). coversWeakness (weaknesses b) analysis
              \<and> expectedWinRate analysis \<ge> 51"
  let ?sub = "find ?P (take 9 (zip [1..<Suc (length rest)] rest))"
  have ns: "Some 0 \<noteq> map_option fst ?sub"
  proof (cases ?sub)
    case None
    then show ?thesis by simp
  next
    case (Some p)
    obtain r a where "p = (r, a)" by (cases p)
    with Some find_sub_ref_pos [of ?P rest r a] show ?thesis by auto
  qed
  show ?thesis
    using assms ns
    by (simp add: recommendTournamentLineup_def Let_def zip_upt_Cons DeckAnalysis.extend_def
        del: upt_Suc)
qed

section \<open>Expected win rate: decks of the field\<close>

lemma find_first_by_name:
  assumes "distinct (map name xs)" "d \<in> set xs"
  shows "find (\<lambda>x. name x = name d) xs = Some d"
  using assms by (induction xs) (auto simp: image_iff)

lemma find_deck_in_field:
  assumes "distinct (map name ds)" "d \<in> set ds"
  shows "find (\<lambda>x. name x = name d) (decks (DeckOptimizer_new ds m)) = Some d"
proof -
  have "mset (map name (sort_desc share ds)) = mset (map name ds)"
    by (simp add: sort_desc_mset)
  then have "distinct (map name (sort_desc share ds))"
    using assms(1) by (metis mset_eq_imp_distinct_iff)
  then show ?thesis
    using assms(2) by (simp add: DeckOptimizer_new_fields find_first_by_name sort_desc_set)
qed

end
